theory Spec2Isabelle
  imports Main "HOL-Library.List_Lexorder" "HOL-Library.Char_ord" "HOL-Library.Multiset"
begin

section \<open>Time values and errors\<close>

text \<open>
  A Go \<open>time.Time\<close> is an instant together with a location. The instant is kept as the
  number of nanoseconds since the Unix epoch (an unbounded integer: the range of
  \<open>time.Time\<close> is far wider than any calendar date), the location as a tag.
  \<open>t.UTC()\<close> and \<open>t.In(l)\<close> keep the instant and replace the location; \<open>After\<close>,
  \<open>Before\<close> and \<open>Equal\<close> compare instants only.
\<close>

datatype Location = UTC | Zone string

record Time =
  nsec :: int
  loc :: Location

definition Time_UTC :: "Time \<Rightarrow> Time" where
  "Time_UTC t = t\<lparr>loc := UTC\<rparr>"

definition Time_In :: "Time \<Rightarrow> Location \<Rightarrow> Time" where
  "Time_In t l = t\<lparr>loc := l\<rparr>"

definition After :: "Time \<Rightarrow> Time \<Rightarrow> bool" where
  "After t u = (nsec t > nsec u)"

definition Before :: "Time \<Rightarrow> Time \<Rightarrow> bool" where
  "Before t u = (nsec t < nsec u)"

definition Equal :: "Time \<Rightarrow> Time \<Rightarrow> bool" where
  "Equal t u = (nsec t = nsec u)"

text \<open>
  A \<open>time.Duration\<close> is a signed 64-bit count of nanoseconds. \<open>t.Sub(u)\<close> saturates at
  the largest and the smallest duration; \<open>t.Add(d)\<close> moves the instant.
\<close>

definition maxDuration :: int where
  "maxDuration = 2 ^ 63 - 1"

definition minDuration :: int where
  "minDuration = - (2 ^ 63)"

definition Second :: int where
  "Second = 1000000000"

definition Minute :: int where
  "Minute = 60 * Second"

definition Sub :: "Time \<Rightarrow> Time \<Rightarrow> int" where
  "Sub t u =
     (let d = nsec t - nsec u
      in if d > maxDuration then maxDuration
         else if d < minDuration then minDuration
         else d)"

definition Add :: "Time \<Rightarrow> int \<Rightarrow> Time" where
  "Add t d = t\<lparr>nsec := nsec t + d\<rparr>"

text \<open>
  \<open>int(d.Seconds())\<close>: the duration in seconds as a float, converted to an integer by
  truncation toward zero. The float is exact on whole seconds, which is what every
  duration between two stored timestamps is, and on the two saturated durations its
  rounding does not reach the next integer; there the conversion is the truncating
  division written here.
\<close>

definition Seconds_int :: "int \<Rightarrow> int" where
  "Seconds_int d = (if 0 \<le> d then d div Second else - ((- d) div Second))"

datatype error = Error string | Wrap string error

text \<open>
  The functions of Go's \<open>time\<close> package that read and write text are parameters of the
  model: \<open>Parse layout value\<close>, \<open>ParseInLocation layout value loc\<close>,
  \<open>Format t layout\<close> and \<open>LoadLocation name\<close>.
\<close>

record Lib =
  Parse :: "string \<Rightarrow> string \<Rightarrow> error + Time"
  ParseInLocation :: "string \<Rightarrow> string \<Rightarrow> Location \<Rightarrow> error + Time"
  Format :: "Time \<Rightarrow> string \<Rightarrow> string"
  LoadLocation :: "string \<Rightarrow> error + Location"

definition RFC3339 :: string where
  "RFC3339 = ''2006-01-02T15:04:05Z07:00''"

definition stampLayout :: string where
  "stampLayout = ''2006-01-02 15:04:05''"

subsection \<open>parseTimeInUTC (main.go)\<close>

definition parseTimeInUTC :: "Lib \<Rightarrow> string \<Rightarrow> error + Time" where
  "parseTimeInUTC L timeStr =
     (case Parse L RFC3339 timeStr of
        Inr t \<Rightarrow> Inr (Time_UTC t)
      | Inl _ \<Rightarrow>
     (case Parse L ''2006-01-02T15:04:05Z'' timeStr of
        Inr t \<Rightarrow> Inr (Time_UTC t)
      | Inl _ \<Rightarrow>
     (case ParseInLocation L ''2006-01-02 15:04:05'' timeStr UTC of
        Inr t \<Rightarrow> Inr t
      | Inl _ \<Rightarrow> Parse L RFC3339 timeStr)))"

section \<open>The notification store and the application state\<close>

text \<open>
  A row of the table \<open>notifications\<close>; the columns \<open>start_time\<close> and \<open>end_time\<close> hold
  text. The primary key is \<open>id\<close>. SQLite compares two texts byte by byte, which is the
  lexicographic order on \<open>string\<close>.
\<close>

record Row =
  c_id :: string
  c_message :: string
  c_start_time :: string
  c_end_time :: string
  c_device :: string
  c_status :: string
  c_repeat_count :: int

record Notification =
  ID :: string
  Message :: string
  StartTime :: Time
  EndTime :: Time
  Device :: string
  Status :: string
  RepeatCount :: int

datatype CancelFunc = CancelFunc string

record CastSession =
  NotificationID :: string
  SessDevice :: string
  Cancel :: "CancelFunc option"
  Active :: bool

datatype Mutex = CastMutex | VideoGenMutex | SessionMutex string

text \<open>
  What a call does besides changing the state is written to a trace, in program order:
  taking and releasing a lock, sleeping (milliseconds), and each call of an external
  collaborator.
\<close>

datatype Event =
    Lock Mutex
  | Unlock Mutex
  | Sleep nat
  | MdnsDiscovery
  | GetLANIp
  | ServerStart
  | PlayMedia string string
  | CancelCall string
  | DeleteCast string
  | ExecUpdate string string
  | GenImage string
  | GenTTS string int
  | RunFfmpeg "string list"

record App =
  DB :: "Row list"
  ActiveCasts :: "string \<rightharpoonup> CastSession"
  VideoGenInProgress :: "string \<rightharpoonup> bool"
  trace :: "Event list"

definition emit :: "Event \<Rightarrow> App \<Rightarrow> App" where
  "emit e s = s\<lparr>trace := trace s @ [e]\<rparr>"

section \<open>createNotification (main.go)\<close>

record RequestBody =
  req_Message :: string
  req_Device :: string
  req_StartTime :: string
  req_EndTime :: string
  req_RepeatCount :: int

datatype Body = ErrorBody string | NotificationBody Notification

datatype Response = Response nat Body

text \<open>
  The handler's surroundings: the result of \<open>c.BodyParser\<close>, the identifier that
  \<open>uuid.New().String()\<close> returns, and whether \<open>DB.Prepare\<close> and \<open>stmt.Exec\<close> fail.
\<close>

record CreateEnv =
  BodyParser :: "error + RequestBody"
  uuid_New :: string
  PrepareFails :: bool
  InsertFails :: bool

definition createNotification :: "Lib \<Rightarrow> CreateEnv \<Rightarrow> App \<Rightarrow> Response \<times> App" where
  "createNotification L E s =
     (case BodyParser E of
        Inl _ \<Rightarrow> (Response 400 (ErrorBody ''Invalid request body''), s)
      | Inr requestBody \<Rightarrow>
     (case Parse L RFC3339 (req_StartTime requestBody) of
        Inl _ \<Rightarrow> (Response 400 (ErrorBody ''Invalid start_time format''), s)
      | Inr startTime \<Rightarrow>
     (case Parse L RFC3339 (req_EndTime requestBody) of
        Inl _ \<Rightarrow> (Response 400 (ErrorBody ''Invalid end_time format''), s)
      | Inr endTime \<Rightarrow>
        let repeatCount = (if req_RepeatCount requestBody < 1 then 1
                           else req_RepeatCount requestBody);
            notif = \<lparr>ID = uuid_New E,
                     Message = req_Message requestBody,
                     StartTime = startTime,
                     EndTime = endTime,
                     Device = req_Device requestBody,
                     Status = ''pending'',
                     RepeatCount = repeatCount\<rparr>;
            startTimeUTC = Time_UTC (StartTime notif);
            endTimeUTC = Time_UTC (EndTime notif)
        in if PrepareFails E then (Response 500 (ErrorBody ''Database error''), s)
           else if InsertFails E
           then (Response 500 (ErrorBody ''Failed to create notification''), s)
           else (Response 201 (NotificationBody notif),
                 s\<lparr>DB := DB s @
                    [\<lparr>c_id = ID notif,
                      c_message = Message notif,
                      c_start_time = Format L startTimeUTC stampLayout,
                      c_end_time = Format L endTimeUTC stampLayout,
                      c_device = Device notif,
                      c_status = Status notif,
                      c_repeat_count = RepeatCount notif\<rparr>]\<rparr>))))"

section \<open>Session Manager (scheduler.go)\<close>

record mdnsDevice =
  Names :: "string list"
  Url :: string

datatype Query = PendingDue | ActiveEnded | PendingSoon

datatype 'a outcome = Returned 'a | Failed error | Panicked

text \<open>
  The collaborators outside the repository, as seen during one tick: the devices that
  mDNS discovery delivers, the result of \<open>ip.GetLANIp\<close>, the result of
  \<open>client.PlayMedia\<close> for a device URI and a media URL, whether the \<open>UPDATE\<close> that
  sets a status for an identifier fails, whether a \<open>SELECT\<close> fails, whether \<open>os.Stat\<close>
  succeeds on a path, and the outcomes of image rendering, speech synthesis and ffmpeg.
\<close>

record Env =
  mdnsDevices :: "mdnsDevice list"
  GetLANIp_result :: "error + string"
  PlayMedia_result :: "string \<Rightarrow> string \<Rightarrow> error option"
  ExecFails :: "string \<Rightarrow> string \<Rightarrow> bool"
  QueryFails :: "Query \<Rightarrow> bool"
  Stat :: "string \<Rightarrow> bool"
  Clean :: "string \<Rightarrow> string"
  MkdirAllFails :: "string \<Rightarrow> bool"
  generateNotificationImageSimple_result :: "string \<Rightarrow> string outcome"
  generateTTSAudio_result :: "string \<Rightarrow> string \<Rightarrow> int \<Rightarrow> string outcome"
  ffmpeg_result :: "string list \<Rightarrow> unit outcome"
  playlistSize :: "string \<Rightarrow> nat option"

definition getDevice :: "Env \<Rightarrow> nat \<Rightarrow> string \<Rightarrow> App \<Rightarrow> (error + mdnsDevice) \<times> App" where
  "getDevice E waitTime targetDevice s =
     (let s1 = emit (Sleep (waitTime * 1000)) (emit MdnsDiscovery s)
      in case find (\<lambda>device. targetDevice \<in> set (Names device)) (mdnsDevices E) of
           Some device \<Rightarrow> (Inr device, s1)
         | None \<Rightarrow> (Inl (Error (''failed to find device for name '' @ targetDevice)), s1))"

definition setStatus :: "string \<Rightarrow> string \<Rightarrow> Row list \<Rightarrow> Row list" where
  "setStatus st i db = map (\<lambda>r. if c_id r = i then r\<lparr>c_status := st\<rparr> else r) db"

text \<open>\<open>UPDATE notifications SET status = st WHERE id = i\<close>; a failure is only logged.\<close>

definition execUpdate :: "Env \<Rightarrow> string \<Rightarrow> string \<Rightarrow> App \<Rightarrow> App" where
  "execUpdate E st i s =
     (let s1 = emit (ExecUpdate st i) s
      in if ExecFails E st i then s1 else s1\<lparr>DB := setStatus st i (DB s1)\<rparr>)"

definition serverPort :: string where
  "serverPort = '':8889''"

definition startCast :: "Env \<Rightarrow> string \<Rightarrow> string \<Rightarrow> string \<Rightarrow> App \<Rightarrow> error option \<times> App" where
  "startCast E notifID deviceName message s =
     (let s1 = emit (Lock CastMutex) s
      in if ActiveCasts s1 notifID \<noteq> None
         then (Some (Error ''cast already active for this notification''),
               emit (Unlock CastMutex) s1)
         else
     (case getDevice E 5 deviceName s1 of
        (Inl err, s2) \<Rightarrow>
          (Some (Wrap ''failed to find device'' err), emit (Unlock CastMutex) s2)
      | (Inr deviceToUse, s2) \<Rightarrow>
     (case GetLANIp_result E of
        Inl err \<Rightarrow>
          (Some (Wrap ''failed to get local IP'' err),
           emit (Unlock CastMutex) (emit GetLANIp s2))
      | Inr localIP \<Rightarrow>
        let s3 = emit (Sleep 1000) (emit ServerStart (emit GetLANIp s2));
            notificationURL =
              ''http://'' @ localIP @ serverPort @ ''/files/'' @ notifID @ ''/playlist.m3u8'';
            s4 = emit (PlayMedia (Url deviceToUse) notificationURL) s3
        in (case PlayMedia_result E (Url deviceToUse) notificationURL of
              Some err \<Rightarrow>
                (Some (Wrap ''failed to cast media'' err),
                 emit (Unlock CastMutex) (emit (CancelCall notifID) s4))
            | None \<Rightarrow>
                let session = \<lparr>NotificationID = notifID,
                               SessDevice = deviceName,
                               Cancel = Some (CancelFunc notifID),
                               Active = True\<rparr>;
                    s5 = s4\<lparr>ActiveCasts := (ActiveCasts s4)(notifID \<mapsto> session)\<rparr>;
                    s6 = execUpdate E ''active'' notifID s5
                in (None, emit (Unlock CastMutex) s6)))))"

definition stopCast :: "Env \<Rightarrow> string \<Rightarrow> App \<Rightarrow> error option \<times> App" where
  "stopCast E notifID s =
     (let s1 = emit (Lock CastMutex) s
      in case ActiveCasts s1 notifID of
           None \<Rightarrow> (None, emit (Unlock CastMutex) s1)
         | Some session \<Rightarrow>
             let s2 = emit (Lock (SessionMutex notifID)) s1
             in if \<not> Active session
                then (None, emit (Unlock CastMutex) (emit (Unlock (SessionMutex notifID)) s2))
                else
                  let s3 = emit (Unlock (SessionMutex notifID))
                             (s2\<lparr>ActiveCasts :=
                                   (ActiveCasts s2)(notifID \<mapsto> session\<lparr>Active := False\<rparr>)\<rparr>);
                      s4 = (case Cancel session of
                              Some _ \<Rightarrow> emit (CancelCall notifID) s3
                            | None \<Rightarrow> s3);
                      s5 = emit (Sleep 1500) s4;
                      s6 = emit (DeleteCast notifID)
                             (s5\<lparr>ActiveCasts := (ActiveCasts s5)(notifID := None)\<rparr>);
                      s7 = execUpdate E ''completed'' notifID s6
                  in (None, emit (Unlock CastMutex) s7))"

section \<open>Scheduler scans (scheduler.go)\<close>

definition playlistPath :: "string \<Rightarrow> string" where
  "playlistPath i = ''./data/chunks/'' @ i @ ''/playlist.m3u8''"

definition pendingDueRows :: "Lib \<Rightarrow> Time \<Rightarrow> Row list \<Rightarrow> Row list" where
  "pendingDueRows L now db =
     filter (\<lambda>r. c_status r = ''pending''
                \<and> c_start_time r \<le> Format L now stampLayout
                \<and> c_end_time r > Format L now stampLayout) db"

definition activeEndedRows :: "Lib \<Rightarrow> Time \<Rightarrow> Row list \<Rightarrow> Row list" where
  "activeEndedRows L now db =
     filter (\<lambda>r. c_status r = ''active'' \<and> c_end_time r \<le> Format L now stampLayout) db"

definition pendingSoonRows :: "Lib \<Rightarrow> Time \<Rightarrow> Row list \<Rightarrow> Row list" where
  "pendingSoonRows L now db =
     (let futureTime = Add now (5 * Minute)
      in filter (\<lambda>r. c_status r = ''pending''
                   \<and> c_start_time r > Format L now stampLayout
                   \<and> c_start_time r \<le> Format L futureTime stampLayout) db)"

text \<open>One iteration of the first loop of \<open>checkAndProcessNotifications\<close>.\<close>

definition activateRow :: "Lib \<Rightarrow> Env \<Rightarrow> Time \<Rightarrow> App \<Rightarrow> Row \<Rightarrow> App" where
  "activateRow L E now s r =
     (case parseTimeInUTC L (c_start_time r) of
        Inl _ \<Rightarrow> s
      | Inr startTime \<Rightarrow>
     (case parseTimeInUTC L (c_end_time r) of
        Inl _ \<Rightarrow> s
      | Inr endTime \<Rightarrow>
        if (After now startTime \<or> Equal now startTime) \<and> Before now endTime
        then if \<not> Stat E (playlistPath (c_id r)) then s
             else snd (startCast E (c_id r) (c_device r) (c_message r) s)
        else s))"

text \<open>One iteration of the second loop.\<close>

definition deactivateRow :: "Lib \<Rightarrow> Env \<Rightarrow> Time \<Rightarrow> App \<Rightarrow> Row \<Rightarrow> App" where
  "deactivateRow L E now s r =
     (case parseTimeInUTC L (c_end_time r) of
        Inl _ \<Rightarrow> s
      | Inr endTime \<Rightarrow>
        if After now endTime \<or> Equal now endTime
        then snd (stopCast E (c_id r) s)
        else s)"

text \<open>The first loop over the rows that its query returned, and the second loop.\<close>

definition activationScan :: "Lib \<Rightarrow> Env \<Rightarrow> Time \<Rightarrow> App \<Rightarrow> App" where
  "activationScan L E now s = foldl (activateRow L E now) s (pendingDueRows L now (DB s))"

definition deactivationScan :: "Lib \<Rightarrow> Env \<Rightarrow> Time \<Rightarrow> App \<Rightarrow> App" where
  "deactivationScan L E now s = foldl (deactivateRow L E now) s (activeEndedRows L now (DB s))"

text \<open>
  The two scans that \<open>checkAndProcessNotifications\<close> runs itself; the pre-generation
  scan is started as a goroutine of its own and is \<open>preGenerateVideosForPendingNotifications\<close>
  below. A failing query ends the function.
\<close>

definition checkAndProcessNotifications :: "Lib \<Rightarrow> Env \<Rightarrow> Time \<Rightarrow> App \<Rightarrow> App" where
  "checkAndProcessNotifications L E now s =
     (if QueryFails E PendingDue then s
      else
        let s1 = activationScan L E now s
        in if QueryFails E ActiveEnded then s1
           else deactivationScan L E now s1)"

section \<open>Content preparation (image.go, scheduler.go)\<close>

text \<open>\<open>fmt.Sprintf("%d", n)\<close>: the decimal digits of an integer, with a sign when negative.\<close>

fun digits :: "nat \<Rightarrow> string" where
  "digits n = (if n < 10 then [''0123456789'' ! n]
               else digits (n div 10) @ [''0123456789'' ! (n mod 10)])"

definition Sprintf_d :: "int \<Rightarrow> string" where
  "Sprintf_d n = (if n < 0 then CHR ''-'' # digits (nat (- n)) else digits (nat n))"

fun joinWith :: "string \<Rightarrow> string list \<Rightarrow> string" where
  "joinWith sep [] = []"
| "joinWith sep [x] = x"
| "joinWith sep (x # y # ys) = x @ sep @ joinWith sep (y # ys)"

text \<open>
  \<open>filepath.Join\<close>: empty elements are dropped, the rest joined with the separator and
  the result cleaned; \<open>filepath.Clean\<close> is a parameter.
\<close>

definition filepath_Join :: "Env \<Rightarrow> string list \<Rightarrow> string" where
  "filepath_Join E elems =
     (let es = filter (\<lambda>e. e \<noteq> []) elems
      in if es = [] then [] else Clean E (joinWith ''/'' es))"

definition ffmpegArgs :: "Env \<Rightarrow> string \<Rightarrow> string \<Rightarrow> int \<Rightarrow> string \<Rightarrow> string list" where
  "ffmpegArgs E imagePath notificationID durationSeconds audioPath =
     (let videosDir = filepath_Join E [''./data/chunks'', notificationID];
          segmentPattern = filepath_Join E [videosDir, ''%d.ts'']
      in if audioPath \<noteq> []
         then [''-y'',
               ''-loop'', ''1'',
               ''-framerate'', ''1'',
               ''-t'', Sprintf_d durationSeconds,
               ''-i'', imagePath,
               ''-i'', audioPath,
               ''-f'', ''lavfi'',
               ''-t'', Sprintf_d durationSeconds,
               ''-i'', ''anullsrc=r=16000:cl=mono'',
               ''-filter_complex'', ''[1:a][2:a]concat=n=2:v=0:a=1[outa]'',
               ''-map'', ''0:v'',
               ''-map'', ''[outa]'',
               ''-preset'', ''ultrafast'',
               ''-c:v'', ''libx264'',
               ''-c:a'', ''aac'',
               ''-b:a'', ''64k'',
               ''-ar'', ''16000'',
               ''-ac'', ''1'',
               ''-b:v'', ''512k'',
               ''-profile:v'', ''baseline'',
               ''-crf'', ''28'',
               ''-pix_fmt'', ''yuv420p'',
               ''-threads'', ''0'',
               ''-max_interleave_delta'', ''0'',
               ''-f'', ''hls'',
               ''-hls_list_size'', ''0'',
               ''-hls_time'', ''10'',
               ''-hls_playlist_type'', ''event'',
               ''-hls_flags'', ''independent_segments+append_list'',
               ''-hls_segment_filename'', segmentPattern,
               ''-master_pl_name'', ''playlist.m3u8'',
               filepath_Join E [videosDir, ''playlist'']]
         else [''-y'',
               ''-loop'', ''1'',
               ''-framerate'', ''1'',
               ''-t'', Sprintf_d durationSeconds,
               ''-i'', imagePath,
               ''-preset'', ''ultrafast'',
               ''-c:v'', ''libx264'',
               ''-b:v'', ''512k'',
               ''-profile:v'', ''baseline'',
               ''-crf'', ''28'',
               ''-pix_fmt'', ''yuv420p'',
               ''-threads'', ''0'',
               ''-f'', ''hls'',
               ''-hls_list_size'', ''0'',
               ''-hls_time'', ''10'',
               ''-hls_playlist_type'', ''event'',
               ''-hls_flags'', ''independent_segments+append_list'',
               ''-hls_segment_filename'', segmentPattern,
               ''-master_pl_name'', ''playlist.m3u8'',
               filepath_Join E [videosDir, ''playlist'']])"

definition generateNotificationVideo ::
  "Env \<Rightarrow> string \<Rightarrow> string \<Rightarrow> int \<Rightarrow> string \<Rightarrow> App \<Rightarrow> string outcome \<times> App" where
  "generateNotificationVideo E imagePath notificationID durationSeconds audioPath s =
     (let videosDir = filepath_Join E [''./data/chunks'', notificationID]
      in if MkdirAllFails E videosDir
         then (Failed (Wrap ''failed to create chunks directory'' (Error ''mkdir'')), s)
         else
           let masterPlaylistPath = filepath_Join E [videosDir, ''playlist.m3u8''];
               args = ffmpegArgs E imagePath notificationID durationSeconds audioPath;
               s1 = emit (RunFfmpeg args) s
           in case ffmpeg_result E args of
                Panicked \<Rightarrow> (Panicked, s1)
              | Failed err \<Rightarrow>
                  (Failed (Wrap ''failed to create HLS video with ffmpeg'' err), s1)
              | Returned _ \<Rightarrow>
                  (case playlistSize E masterPlaylistPath of
                     None \<Rightarrow>
                       (Failed (Wrap ''HLS master playlist was not created'' (Error ''stat'')), s1)
                   | Some sz \<Rightarrow>
                       if sz = 0 then (Failed (Error ''HLS master playlist is empty''), s1)
                       else (Returned masterPlaylistPath, s1)))"

text \<open>
  The duration that the pre-generation job computes:
  \<open>int(n.EndTime.Sub(n.StartTime).Seconds())\<close>, replaced by 10 when below 1.
\<close>

definition jobDuration :: "Notification \<Rightarrow> int" where
  "jobDuration n =
     (let duration = Seconds_int (Sub (EndTime n) (StartTime n))
      in if duration < 1 then 10 else duration)"

datatype exit = Normal | Panic

text \<open>
  The body of the closure that generates one notification's video. Image rendering and
  speech synthesis are collaborators whose outcome comes from the environment; a panic in
  any step leaves the body at once.
\<close>

definition pregenJob_body :: "Lib \<Rightarrow> Env \<Rightarrow> Notification \<Rightarrow> App \<Rightarrow> exit \<times> App" where
  "pregenJob_body L E n s =
     (let duration = jobDuration n;
          s1 = emit (GenImage (ID n)) s
      in case generateNotificationImageSimple_result E (ID n) of
           Panicked \<Rightarrow> (Panic, s1)
         | Failed _ \<Rightarrow> (Normal, s1)
         | Returned imagePath \<Rightarrow>
             let estLocation = (case LoadLocation L ''America/New_York'' of
                                  Inl _ \<Rightarrow> UTC
                                | Inr l \<Rightarrow> l);
                 endTimeEST = Time_In (EndTime n) estLocation;
                 ttsText =
                   ''Hi Dan, this message is to tell you that Michel is in a meeting until ''
                   @ Format L endTimeEST ''3:04 PM''
                   @ '' and he had this message for you: '' @ Message n;
                 s2 = emit (GenTTS (ID n) (RepeatCount n)) s1
             in case generateTTSAudio_result E ttsText (ID n) (RepeatCount n) of
                  Panicked \<Rightarrow> (Panic, s2)
                | r \<Rightarrow>
                    let audioPath = (case r of Returned p \<Rightarrow> p | _ \<Rightarrow> [])
                    in case generateNotificationVideo E imagePath (ID n) duration audioPath s2 of
                         (Panicked, s3) \<Rightarrow> (Panic, s3)
                       | (_, s3) \<Rightarrow> (Normal, s3))"

text \<open>
  The deferred function of the closure: it runs on every way out of the body, a panic
  included.
\<close>

definition clearInProgress :: "string \<Rightarrow> App \<Rightarrow> App" where
  "clearInProgress i s =
     emit (Unlock VideoGenMutex)
       ((emit (Lock VideoGenMutex) s)
          \<lparr>VideoGenInProgress := (VideoGenInProgress s)(i := None)\<rparr>)"

definition pregenJob :: "Lib \<Rightarrow> Env \<Rightarrow> Notification \<Rightarrow> App \<Rightarrow> exit \<times> App" where
  "pregenJob L E n s =
     (case pregenJob_body L E n s of (ex, s') \<Rightarrow> (ex, clearInProgress (ID n) s'))"

text \<open>Reading a Go \<open>map[string]bool\<close>: an absent key reads as false.\<close>

definition inProgress :: "(string \<rightharpoonup> bool) \<Rightarrow> string \<Rightarrow> bool" where
  "inProgress m k = (case m k of Some b \<Rightarrow> b | None \<Rightarrow> False)"

text \<open>
  The check and the mark under \<open>VideoGenMutex\<close>: the result says whether this caller set
  the mark.
\<close>

definition tryMark :: "string \<Rightarrow> App \<Rightarrow> bool \<times> App" where
  "tryMark i s =
     (let s1 = emit (Lock VideoGenMutex) s
      in if inProgress (VideoGenInProgress s1) i
         then (False, emit (Unlock VideoGenMutex) s1)
         else (True, emit (Unlock VideoGenMutex)
                       (s1\<lparr>VideoGenInProgress := (VideoGenInProgress s1)(i \<mapsto> True)\<rparr>)))"

text \<open>One iteration of the loop of \<open>preGenerateVideosForPendingNotifications\<close>.\<close>

definition pregenRow :: "Lib \<Rightarrow> Env \<Rightarrow> Row \<Rightarrow> App \<Rightarrow> exit \<times> App" where
  "pregenRow L E r s =
     (case parseTimeInUTC L (c_start_time r) of
        Inl _ \<Rightarrow> (Normal, s)
      | Inr startTime \<Rightarrow>
     (case parseTimeInUTC L (c_end_time r) of
        Inl _ \<Rightarrow> (Normal, s)
      | Inr endTime \<Rightarrow>
        let notif = \<lparr>ID = c_id r,
                     Message = c_message r,
                     StartTime = startTime,
                     EndTime = endTime,
                     Device = c_device r,
                     Status = c_status r,
                     RepeatCount = c_repeat_count r\<rparr>
        in if Stat E (playlistPath (ID notif)) then (Normal, s)
           else (case tryMark (ID notif) s of
                   (False, s1) \<Rightarrow> (Normal, s1)
                 | (True, s1) \<Rightarrow> pregenJob L E notif s1)))"

text \<open>The loop; a panic ends it, and the deferred \<open>recover\<close> ends the function.\<close>

fun pregenLoop :: "Lib \<Rightarrow> Env \<Rightarrow> Row list \<Rightarrow> App \<Rightarrow> App" where
  "pregenLoop L E [] s = s"
| "pregenLoop L E (r # rs) s =
     (case pregenRow L E r s of
        (Panic, s') \<Rightarrow> s'
      | (Normal, s') \<Rightarrow> pregenLoop L E rs s')"

definition preGenerateVideosForPendingNotifications :: "Lib \<Rightarrow> Env \<Rightarrow> Time \<Rightarrow> App \<Rightarrow> App" where
  "preGenerateVideosForPendingNotifications L E now s =
     (if QueryFails E PendingSoon then s
      else pregenLoop L E (pendingSoonRows L now (DB s)) s)"

subsection \<open>Overlapping pre-generation scans\<close>

text \<open>
  Every tick starts \<open>preGenerateVideosForPendingNotifications\<close> as a goroutine, so several
  may run at once. They interleave at the two places where they touch the shared map,
  each under \<open>VideoGenMutex\<close>: the check and mark before a job, and the deferred clearing
  at its end. A configuration is the shared state with the multiset of identifiers whose
  job is in flight.
\<close>

inductive pregen_step :: "App \<times> string multiset \<Rightarrow> App \<times> string multiset \<Rightarrow> bool" where
  acquire: "tryMark i s = (True, s') \<Longrightarrow> pregen_step (s, J) (s', add_mset i J)"
| skip: "tryMark i s = (False, s') \<Longrightarrow> pregen_step (s, J) (s', J)"
| finish: "ID n \<in># J \<Longrightarrow> pregenJob L E n s = (ex, s') \<Longrightarrow>
             pregen_step (s, J) (s', J - {#ID n#})"

section \<open>Locks and long-running work\<close>

text \<open>
  The events that take seconds or more: a sleep, mDNS discovery, starting playback on
  the device, and the three steps of content preparation.
\<close>

fun isLong :: "Event \<Rightarrow> bool" where
  "isLong (Sleep ms) = True"
| "isLong MdnsDiscovery = True"
| "isLong (PlayMedia uri url) = True"
| "isLong (GenImage i) = True"
| "isLong (GenTTS i k) = True"
| "isLong (RunFfmpeg args) = True"
| "isLong e = False"

text \<open>
  \<open>heldDuring m held es\<close>: reading the events \<open>es\<close> of one thread from a point where it
  holds \<open>m\<close> or not (\<open>held\<close>), some long-running event happens while it holds \<open>m\<close>.
  \<open>heldAfter\<close> says whether it holds \<open>m\<close> at the end.
\<close>

fun heldDuring :: "Mutex \<Rightarrow> bool \<Rightarrow> Event list \<Rightarrow> bool" where
  "heldDuring m held [] = False"
| "heldDuring m held (e # es) =
     (if e = Lock m then heldDuring m True es
      else if e = Unlock m then heldDuring m False es
      else (held \<and> isLong e) \<or> heldDuring m held es)"

fun heldAfter :: "Mutex \<Rightarrow> bool \<Rightarrow> Event list \<Rightarrow> bool" where
  "heldAfter m held [] = held"
| "heldAfter m held (e # es) =
     (if e = Lock m then heldAfter m True es
      else if e = Unlock m then heldAfter m False es
      else heldAfter m held es)"

section \<open>Concrete inputs\<close>

text \<open>
  A library that knows five instants of 1 January 2025 (UTC), each with its RFC 3339
  text, its stored text and its Unix time in seconds; on these it reads and writes what
  Go's \<open>time\<close> package does.
\<close>

definition stampTable :: "(string \<times> string \<times> int) list" where
  "stampTable =
     [(''2025-01-01T09:00:00Z'', ''2025-01-01 09:00:00'', 1735722000),
      (''2025-01-01T10:00:00Z'', ''2025-01-01 10:00:00'', 1735725600),
      (''2025-01-01T10:01:00Z'', ''2025-01-01 10:01:00'', 1735725660),
      (''2025-01-01T10:05:00Z'', ''2025-01-01 10:05:00'', 1735725900),
      (''2025-01-01T11:00:00Z'', ''2025-01-01 11:00:00'', 1735729200)]"

definition tableLib :: Lib where
  "tableLib =
     \<lparr>Parse = (\<lambda>layout v.
        if layout = RFC3339 then
          (case find (\<lambda>(r, t, n). r = v) stampTable of
             Some (r, t, n) \<Rightarrow> Inr \<lparr>nsec = n * Second, loc = UTC\<rparr>
           | None \<Rightarrow> Inl (Error ''parsing time''))
        else Inl (Error ''parsing time'')),
      ParseInLocation = (\<lambda>layout v l.
        if layout = stampLayout then
          (case find (\<lambda>(r, t, n). t = v) stampTable of
             Some (r, t, n) \<Rightarrow> Inr \<lparr>nsec = n * Second, loc = l\<rparr>
           | None \<Rightarrow> Inl (Error ''parsing time''))
        else Inl (Error ''parsing time'')),
      Format = (\<lambda>t layout.
        (case find (\<lambda>(r, s, n). n = nsec t div Second) stampTable of
           Some (r, s, n) \<Rightarrow> s
         | None \<Rightarrow> ''0000-00-00 00:00:00'')),
      LoadLocation = (\<lambda>name. Inr (Zone name))\<rparr>"

definition emptyApp :: App where
  "emptyApp = \<lparr>DB = [], ActiveCasts = Map.empty, VideoGenInProgress = Map.empty, trace = []\<rparr>"

definition demoEnv :: Env where
  "demoEnv =
     \<lparr>mdnsDevices = [\<lparr>Names = [''Living Room TV''], Url = ''192.168.1.20:8009''\<rparr>],
      GetLANIp_result = Inr ''192.168.1.3'',
      PlayMedia_result = (\<lambda>uri url. None),
      ExecFails = (\<lambda>st i. False),
      QueryFails = (\<lambda>q. False),
      Stat = (\<lambda>p. p = playlistPath ''n1''),
      Clean = (\<lambda>p. if take 2 p = ''./'' then drop 2 p else p),
      MkdirAllFails = (\<lambda>p. False),
      generateNotificationImageSimple_result = (\<lambda>i. Returned (''/data/images/'' @ i @ ''.png'')),
      generateTTSAudio_result = (\<lambda>t i k. Returned (''/data/audio/'' @ i @ ''_single.mp3'')),
      ffmpeg_result = (\<lambda>args. Returned ()),
      playlistSize = (\<lambda>p. Some 100)\<rparr>"

definition invertedRequest :: CreateEnv where
  "invertedRequest =
     \<lparr>BodyParser = Inr \<lparr>req_Message = ''standup'',
                        req_Device = ''Living Room TV'',
                        req_StartTime = ''2025-01-01T10:01:00Z'',
                        req_EndTime = ''2025-01-01T09:00:00Z'',
                        req_RepeatCount = 0\<rparr>,
      uuid_New = ''n2'',
      PrepareFails = False,
      InsertFails = False\<rparr>"

definition invertedNotif :: Notification where
  "invertedNotif =
     \<lparr>ID = ''n2'', Message = ''standup'',
      StartTime = \<lparr>nsec = 1735725660000000000, loc = UTC\<rparr>,
      EndTime = \<lparr>nsec = 1735722000000000000, loc = UTC\<rparr>,
      Device = ''Living Room TV'', Status = ''pending'', RepeatCount = 1\<rparr>"

definition invertedRow :: Row where
  "invertedRow =
     \<lparr>c_id = ''n2'', c_message = ''standup'',
      c_start_time = ''2025-01-01 10:01:00'',
      c_end_time = ''2025-01-01 09:00:00'',
      c_device = ''Living Room TV'', c_status = ''pending'',
      c_repeat_count = 1\<rparr>"

section \<open>Reading timestamps\<close>

lemma tableLib_Parse_0900:
  "Parse tableLib RFC3339 ''2025-01-01T09:00:00Z''
     = Inr \<lparr>nsec = 1735722000000000000, loc = UTC\<rparr>"
  by (simp add: tableLib_def stampTable_def Second_def)

lemma tableLib_stamp_0900:
  "ParseInLocation tableLib stampLayout ''2025-01-01 09:00:00'' UTC
     = Inr \<lparr>nsec = 1735722000000000000, loc = UTC\<rparr>"
  by (simp add: tableLib_def stampTable_def Second_def)

text \<open>
  Claim C7. \<open>parseTimeInUTC\<close> succeeds on every string that \<open>time.Parse\<close> accepts under
  the RFC 3339 layout, and returns that instant with location UTC; it succeeds on every
  string that \<open>time.ParseInLocation\<close> accepts under the layout \<open>2006-01-02 15:04:05\<close>
  in UTC, and for such a string, which the two \<open>T\<close>-separated layouts reject, it returns
  the reading of the wall clock as UTC; and every time it returns has location UTC,
  given that a time parsed in a location lies in that location.
\<close>

theorem parseTimeInUTC_accepts:
  "(Parse L RFC3339 v = Inr t \<longrightarrow>
      (\<exists>r. parseTimeInUTC L v = Inr r \<and> nsec r = nsec t \<and> loc r = UTC)) \<and>
   (ParseInLocation L stampLayout v UTC = Inr u \<longrightarrow>
      (\<exists>r. parseTimeInUTC L v = Inr r) \<and>
      ((\<exists>e. Parse L RFC3339 v = Inl e) \<and> (\<exists>e. Parse L ''2006-01-02T15:04:05Z'' v = Inl e)
         \<longrightarrow> parseTimeInUTC L v = Inr u)) \<and>
   (parseTimeInUTC L v = Inr r \<and>
    (\<forall>w. ParseInLocation L stampLayout v UTC = Inr w \<longrightarrow> loc w = UTC) \<longrightarrow> loc r = UTC)"
  by (auto simp: parseTimeInUTC_def stampLayout_def Time_UTC_def split: sum.splits)

theorem parseTimeInUTC_accepts_witness:
  "(\<exists>r. parseTimeInUTC tableLib ''2025-01-01T09:00:00Z'' = Inr r \<and>
        nsec r = 1735722000000000000 \<and> loc r = UTC) \<and>
   parseTimeInUTC tableLib ''2025-01-01 09:00:00''
     = Inr \<lparr>nsec = 1735722000000000000, loc = UTC\<rparr>"
proof -
  let ?t = "\<lparr>nsec = 1735722000000000000, loc = UTC\<rparr>"
  have a: "\<exists>e. Parse tableLib RFC3339 ''2025-01-01 09:00:00'' = Inl e"
    by (simp add: tableLib_def stampTable_def)
  have b: "\<exists>e. Parse tableLib ''2006-01-02T15:04:05Z'' ''2025-01-01 09:00:00'' = Inl e"
    by (simp add: tableLib_def RFC3339_def)
  have 1: "\<exists>r. parseTimeInUTC tableLib ''2025-01-01T09:00:00Z'' = Inr r \<and>
        nsec r = nsec ?t \<and> loc r = UTC"
    by (rule parseTimeInUTC_accepts [of tableLib "''2025-01-01T09:00:00Z''" ?t,
          THEN conjunct1, THEN mp, OF tableLib_Parse_0900])
  have 2: "parseTimeInUTC tableLib ''2025-01-01 09:00:00'' = Inr ?t"
    by (rule parseTimeInUTC_accepts [of tableLib "''2025-01-01 09:00:00''" _ ?t,
          THEN conjunct2, THEN conjunct1, THEN mp, OF tableLib_stamp_0900,
          THEN conjunct2, THEN mp, OF conjI, OF a b])
  from 1 2 show ?thesis by simp
qed

section \<open>Creating a notification\<close>

lemma createNotification_inverted_eval:
  "createNotification tableLib invertedRequest emptyApp =
     (Response 201 (NotificationBody invertedNotif), emptyApp\<lparr>DB := [invertedRow]\<rparr>)"
  by (simp add: createNotification_def invertedRequest_def tableLib_def stampTable_def
      emptyApp_def RFC3339_def stampLayout_def Second_def Time_UTC_def invertedNotif_def
      invertedRow_def)

text \<open>
  Claim C1. The claim is that a request whose start is not before its end is rejected and
  stores no row. The handler has no such check: the request with start 10:01 and end
  09:00 of the same day is answered with 201 and its row is stored.
\<close>

theorem createNotification_accepts_inverted:
  "Parse tableLib RFC3339 ''2025-01-01T10:01:00Z''
     = Inr \<lparr>nsec = 1735725660000000000, loc = UTC\<rparr> \<and>
   Parse tableLib RFC3339 ''2025-01-01T09:00:00Z''
     = Inr \<lparr>nsec = 1735722000000000000, loc = UTC\<rparr> \<and>
   createNotification tableLib invertedRequest emptyApp =
     (Response 201 (NotificationBody invertedNotif), emptyApp\<lparr>DB := [invertedRow]\<rparr>)"
  by (simp add: createNotification_def invertedRequest_def tableLib_def stampTable_def
      emptyApp_def RFC3339_def stampLayout_def Second_def Time_UTC_def invertedNotif_def
      invertedRow_def)

text \<open>
  Claim C10. A request whose repeat count is below 1 is handled exactly as the same
  request with repeat count 1, so it is not rejected for its repeat count, and when it
  is stored (status 201) the new row has repeat count 1.
\<close>

theorem createNotification_repeat_count:
  "BodyParser E = Inr rb \<and> req_RepeatCount rb < 1 \<longrightarrow>
     createNotification L E s
       = createNotification L (E\<lparr>BodyParser := Inr (rb\<lparr>req_RepeatCount := 1\<rparr>)\<rparr>) s \<and>
     (\<forall>b s'. createNotification L E s = (Response 201 b, s') \<longrightarrow>
        (\<exists>row. DB s' = DB s @ [row] \<and> c_repeat_count row = 1))"
  by (auto simp: createNotification_def Let_def split: sum.splits if_splits)

theorem createNotification_repeat_count_witness:
  "\<exists>row. DB (snd (createNotification tableLib invertedRequest emptyApp)) = [row]
          \<and> c_repeat_count row = 1"
proof -
  let ?rb = "\<lparr>req_Message = ''standup'', req_Device = ''Living Room TV'',
                   req_StartTime = ''2025-01-01T10:01:00Z'',
                   req_EndTime = ''2025-01-01T09:00:00Z'', req_RepeatCount = 0\<rparr>"
  have bp: "BodyParser invertedRequest = Inr ?rb \<and> req_RepeatCount ?rb < 1"
    by (simp add: invertedRequest_def)
  note all = createNotification_repeat_count [of invertedRequest ?rb tableLib emptyApp,
      THEN mp, OF bp, THEN conjunct2, rule_format]
  from all [OF createNotification_inverted_eval] obtain row where
    row: "DB (emptyApp\<lparr>DB := [invertedRow]\<rparr>) = DB emptyApp @ [row]" "c_repeat_count row = 1"
    by blast
  have "DB emptyApp = []" by (simp add: emptyApp_def)
  with row have "DB (snd (createNotification tableLib invertedRequest emptyApp)) = [row]"
    by (simp add: createNotification_inverted_eval)
  with row show ?thesis by blast
qed

end
